theory Spec2Isabelle
  imports Main
begin

section \<open>Data model of \<open>wiseagents/core.py\<close>\<close>

text \<open>
  The development embeds the shared conversation context (\<open>WiseAgentContext\<close>), the
  registry (\<open>WiseAgentRegistry\<close>) and the request/response handling of \<open>WiseAgent\<close>.
  Every operation of the source has two branches, selected by \<open>_use_redis\<close>: one works on
  the class-level attributes of \<open>WiseAgentContext\<close> (process memory), the other on a Redis
  server. Both branches are embedded. The Redis server is a store that one client works
  on at a time: a \<open>WATCH\<close>ed key is never changed by somebody else, so a
  \<open>redis.WatchError\<close> is raised only where the method itself writes the key it watches
  before it opens the transaction (\<open>add_query\<close>); everywhere else the body of the
  \<open>while True\<close> retry loop runs once. Interleavings of several clients are outside the
  embedding.
\<close>

datatype WiseAgentCollaborationType = SEQUENTIAL | PHASED | INDEPENDENT | CHAT

text \<open>
  Modelled from the spec: \<open>WiseAgentMessageType\<close> and \<open>WiseAgentMessage\<close> live in
  \<open>wiseagents/wise_agent_messaging.py\<close>, which is not among the sources. The spec gives
  the message as \<open>{sender, context_name, chat_id, type, content}\<close> with type one of
  REQUEST, RESPONSE, ACK, EVENT; \<open>core.py\<close> builds messages with the keyword arguments
  \<open>message\<close>, \<open>message_type\<close>, \<open>sender\<close>, \<open>context_name\<close>, \<open>chat_id\<close>, leaves
  \<open>message_type\<close> out for everything but an ACK, and documents \<open>chat_id\<close> as
  \<open>Optional[str]\<close>.
\<close>

datatype WiseAgentMessageType = REQUEST | RESPONSE | ACK | EVENT

record WiseAgentMessage =
  message :: string
  message_type :: "WiseAgentMessageType option"
  sender :: string
  context_name :: string
  chat_id :: "string option"

text \<open>
  \<open>ChatCompletionMessageParam\<close> and \<open>ChatCompletionToolParam\<close> come from the
  \<open>openai\<close> package. The context only stores them; \<open>handle_response\<close> builds
  \<open>{"role": "assistant", "content": response_str}\<close> and \<open>get_tool_OpenAI_format\<close>
  builds a function descriptor out of name, description and parameter schema.
\<close>

record ChatCompletionMessageParam =
  role :: string
  content :: string

record ChatCompletionToolParam =
  function_name :: string
  function_description :: string
  function_parameters :: string

text \<open>The exceptions the embedded code can raise.\<close>

datatype error =
    AttributeError
  | NameError
  | KeyError
  | IndexError
  | ValueError
  | TypeError
  | DataError

text \<open>
  A Redis client created as \<open>redis.Redis(host=..., port=...)\<close> answers with
  \<open>bytes\<close>; the source itself decodes such answers (\<open>key.decode('utf-8')\<close> in
  \<open>llm_chat_completion\<close>, \<open>return_byte.decode('utf-8')\<close> in
  \<open>get_agent_description\<close>). A Python \<open>str\<close> never equals a \<open>bytes\<close> object, so
  the two are kept apart where the source compares or returns raw answers. A string is
  written as the sequence of its UTF-8 bytes, which makes \<open>encode\<close> the identity on the
  payload.
\<close>

datatype py_str = Str string | Bytes string

subsection \<open>Python lists\<close>

text \<open>\<open>xs.index(x)\<close> for an \<open>x\<close> that occurs in \<open>xs\<close>: the first position.\<close>

fun index :: "'a list \<Rightarrow> 'a \<Rightarrow> nat" where
  "index [] x = 0"
| "index (y # ys) x = (if y = x then 0 else Suc (index ys x))"

text \<open>\<open>xs[i]\<close>: a negative index counts from the end, out of range is \<open>IndexError\<close>.\<close>

definition subscript :: "'a list \<Rightarrow> int \<Rightarrow> 'a option" where
  "subscript xs i =
     (if 0 \<le> i \<and> i < int (length xs) then Some (xs ! nat i)
      else if - int (length xs) \<le> i \<and> i < 0 then Some (xs ! nat (int (length xs) + i))
      else None)"

subsection \<open>The heap of list objects\<close>

text \<open>
  \<open>set_agent_phase_assignments\<close> stores the caller's list of lists itself, not a copy,
  and \<open>remove_required_agent_for_current_phase\<close> mutates a list in place. The lists
  that the phase bookkeeping holds are therefore objects on a heap, and the dictionaries
  hold their addresses. An address is a position in the heap; allocation appends.
  \<open>str_lists\<close> are the \<open>List[str]\<close> objects, \<open>nested_lists\<close> the \<open>List[List[str]]\<close>
  objects, each a list of addresses of \<open>List[str]\<close> objects.
  The other lists of the context are kept by value: the context creates them itself, or,
  for \<open>_agents_sequence\<close>, stores the caller's list and never changes it.
\<close>

record py_heap =
  str_lists :: "string list list"
  nested_lists :: "nat list list"

definition read_list :: "py_heap \<Rightarrow> nat \<Rightarrow> string list" where
  "read_list h a = (if a < length (str_lists h) then str_lists h ! a else [])"

definition read_nested_refs :: "py_heap \<Rightarrow> nat \<Rightarrow> nat list" where
  "read_nested_refs h p = (if p < length (nested_lists h) then nested_lists h ! p else [])"

definition read_nested :: "py_heap \<Rightarrow> nat \<Rightarrow> string list list" where
  "read_nested h p = map (read_list h) (read_nested_refs h p)"

definition new_list :: "string list \<Rightarrow> py_heap \<Rightarrow> nat \<times> py_heap" where
  "new_list xs h = (length (str_lists h), h\<lparr>str_lists := str_lists h @ [xs]\<rparr>)"

fun new_lists :: "string list list \<Rightarrow> py_heap \<Rightarrow> nat list \<times> py_heap" where
  "new_lists [] h = ([], h)"
| "new_lists (xs # xss) h =
     (let (a, h1) = new_list xs h; (as, h2) = new_lists xss h1 in (a # as, h2))"

text \<open>A list-of-lists literal such as \<open>[["A", "B"], ["C"]]\<close>: inner lists first.\<close>

definition new_nested :: "string list list \<Rightarrow> py_heap \<Rightarrow> nat \<times> py_heap" where
  "new_nested xss h =
     (let (as, h1) = new_lists xss h
      in (length (nested_lists h1), h1\<lparr>nested_lists := nested_lists h1 @ [as]\<rparr>))"

text \<open>\<open>copy.deepcopy\<close> of a list of strings: a new list object with the same elements.\<close>

definition deepcopy :: "nat \<Rightarrow> py_heap \<Rightarrow> nat \<times> py_heap" where
  "deepcopy a h = new_list (read_list h a) h"

text \<open>A heap address is valid when it points at an object.\<close>

definition valid_list :: "py_heap \<Rightarrow> nat \<Rightarrow> bool" where
  "valid_list h a \<longleftrightarrow> a < length (str_lists h)"

definition valid_nested :: "py_heap \<Rightarrow> nat \<Rightarrow> bool" where
  "valid_nested h p \<longleftrightarrow>
     p < length (nested_lists h) \<and> list_all (valid_list h) (nested_lists h ! p)"

subsection \<open>The state\<close>

text \<open>
  An instance of \<open>WiseAgentContext\<close> has the attributes that \<open>__init__\<close> assigns:
  \<open>_name\<close>, \<open>_config\<close> and, when the configuration asks for Redis, \<open>_use_redis\<close> and
  the connection. Of the configuration only \<open>use_redis\<close> is read after construction.
\<close>

record WiseAgentContext =
  ctx_name :: string
  ctx_use_redis :: bool

text \<open>
  The class-level attributes of \<open>WiseAgentContext\<close> (lines 117 to 153). No method
  rebinds one of them on an instance: every method reads the attribute through \<open>self\<close>
  and mutates the object it finds, which is the one object of the class. They are
  therefore one store for all instances of a process. \<open>_llm_chat_completion\<close> is keyed
  by what \<open>handle_response\<close> passes, \<open>request.chat_id\<close>, which may be \<open>None\<close>.
  \<open>_message_trace\<close> holds the message objects themselves, that is, their addresses.
\<close>

record context_class =
  cls_message_trace :: "nat list"
  cls_participants :: "string list"
  cls_llm_chat_completion :: "string option \<rightharpoonup> ChatCompletionMessageParam list"
  cls_llm_required_tool_call :: "string \<rightharpoonup> string list"
  cls_llm_available_tools_in_chat :: "string \<rightharpoonup> ChatCompletionToolParam list"
  cls_agents_sequence :: "string \<rightharpoonup> string list"
  cls_route_response_to :: "string \<rightharpoonup> string"
  cls_agent_phase_assignments :: "string \<rightharpoonup> nat"
  cls_current_phase :: "string \<rightharpoonup> int"
  cls_required_agents_for_current_phase :: "string \<rightharpoonup> nat"
  cls_queries :: "string \<rightharpoonup> string list"
  cls_collaboration_type :: "string \<rightharpoonup> WiseAgentCollaborationType"

text \<open>
  The Redis server: two lists (\<open>message_trace\<close>, \<open>participants\<close>) and one hash per
  dictionary, each named as its Redis key. Hash values are written with
  \<open>pickle.dumps\<close> and read with \<open>pickle.loads\<close>, which copies: the server holds
  values, never references. The entries of \<open>message_trace\<close> stand for the \<open>repr\<close>
  strings of the messages.
\<close>

record redis_server =
  redis_message_trace :: "WiseAgentMessage list"
  redis_participants :: "string list"
  redis_llm_chat_completion :: "string \<rightharpoonup> ChatCompletionMessageParam list"
  redis_llm_required_tool_call :: "string \<rightharpoonup> string list"
  redis_llm_available_tools_in_chat :: "string \<rightharpoonup> ChatCompletionToolParam list"
  redis_agents_sequence :: "string \<rightharpoonup> string list"
  redis_route_response_to :: "string \<rightharpoonup> string"
  redis_agent_phase_assignments :: "string \<rightharpoonup> string list list"
  redis_current_phase :: "string \<rightharpoonup> int"
  redis_required_agents_for_current_phase :: "string \<rightharpoonup> string list"
  redis_queries :: "string \<rightharpoonup> string list"
  redis_collaboration_type :: "string \<rightharpoonup> WiseAgentCollaborationType"
  redis_agents :: "string \<rightharpoonup> string"
  redis_contexts :: "string \<rightharpoonup> WiseAgentContext"

text \<open>
  The class-level attributes of \<open>WiseAgentRegistry\<close> (lines 1133 to 1139). The class
  body defines \<open>agents_descriptions_dict\<close>, \<open>contexts\<close>, \<open>tools\<close>, \<open>config\<close> and
  \<open>redis_db\<close>. \<open>register_agent\<close> reads an attribute \<open>agents\<close>, which the class body
  does not define: \<open>reg_agents\<close> is \<open>None\<close> as long as nobody has assigned that
  attribute from outside. \<open>reg_use_redis\<close> is \<open>config.get("use_redis") == True\<close> of
  the loaded configuration; the configuration file is taken as read.
\<close>

record registry_class =
  reg_agents_descriptions_dict :: "string \<rightharpoonup> string"
  reg_agents :: "(string \<rightharpoonup> string) option"
  reg_contexts :: "string \<rightharpoonup> WiseAgentContext"
  reg_use_redis :: bool

text \<open>
  What an agent's transport was asked to deliver: \<open>transport.send_request\<close> puts the
  message on the destination's request queue, \<open>transport.send_response\<close> on its
  response queue.
\<close>

datatype delivery =
    Request WiseAgentMessage string
  | Response WiseAgentMessage string

text \<open>
  Messages are objects as well: \<open>send_request\<close> and \<open>send_response\<close> assign
  \<open>message.sender\<close> on the object they are given, and the trace in memory keeps that
  object, not a copy. \<open>message_objects\<close> are the message objects of the process, an
  address being a position in the list. The transport serialises a message when it sends
  it (\<open>yaml.dump\<close>) and Redis gets its \<open>repr\<close>: both hold the contents the message has
  at that moment.
\<close>

record world =
  memory :: context_class
  redis :: redis_server
  registry :: registry_class
  heap :: py_heap
  message_objects :: "WiseAgentMessage list"
  transport :: "delivery list"

definition empty_context_class :: context_class where
  "empty_context_class =
     \<lparr>cls_message_trace = [], cls_participants = [],
      cls_llm_chat_completion = Map.empty, cls_llm_required_tool_call = Map.empty,
      cls_llm_available_tools_in_chat = Map.empty, cls_agents_sequence = Map.empty,
      cls_route_response_to = Map.empty, cls_agent_phase_assignments = Map.empty,
      cls_current_phase = Map.empty, cls_required_agents_for_current_phase = Map.empty,
      cls_queries = Map.empty, cls_collaboration_type = Map.empty\<rparr>"

definition empty_redis_server :: redis_server where
  "empty_redis_server =
     \<lparr>redis_message_trace = [], redis_participants = [],
      redis_llm_chat_completion = Map.empty, redis_llm_required_tool_call = Map.empty,
      redis_llm_available_tools_in_chat = Map.empty, redis_agents_sequence = Map.empty,
      redis_route_response_to = Map.empty, redis_agent_phase_assignments = Map.empty,
      redis_current_phase = Map.empty, redis_required_agents_for_current_phase = Map.empty,
      redis_queries = Map.empty, redis_collaboration_type = Map.empty,
      redis_agents = Map.empty, redis_contexts = Map.empty\<rparr>"

text \<open>
  The state right after the module is imported: empty class attributes, an empty Redis
  server and an empty heap; \<open>use_redis\<close> as the configuration file says.
\<close>

definition initial_world :: "bool \<Rightarrow> world" where
  "initial_world use_redis =
     \<lparr>memory = empty_context_class, redis = empty_redis_server,
      registry = \<lparr>reg_agents_descriptions_dict = Map.empty, reg_agents = None,
                  reg_contexts = Map.empty, reg_use_redis = use_redis\<rparr>,
      heap = \<lparr>str_lists = [], nested_lists = []\<rparr>,
      message_objects = [],
      transport = []\<rparr>"

text \<open>
  \<open>WiseAgentMessage(...)\<close> makes a new object; \<open>read_message\<close> gives the contents of the
  object at an address (every address that \<open>new_message\<close> has given out points at one);
  \<open>set_sender\<close> is the assignment \<open>message.sender = ...\<close>.
\<close>

definition new_message :: "WiseAgentMessage \<Rightarrow> world \<Rightarrow> nat \<times> world" where
  "new_message m w =
     (length (message_objects w), w\<lparr>message_objects := message_objects w @ [m]\<rparr>)"

definition read_message :: "world \<Rightarrow> nat \<Rightarrow> WiseAgentMessage" where
  "read_message w a =
     (if a < length (message_objects w) then message_objects w ! a
      else \<lparr>message = [], message_type = None, sender = [], context_name = [],
            chat_id = None\<rparr>)"

definition set_sender :: "nat \<Rightarrow> string \<Rightarrow> world \<Rightarrow> world" where
  "set_sender a name w =
     w\<lparr>message_objects := (message_objects w)[a := (read_message w a)\<lparr>sender := name\<rparr>]\<rparr>"

text \<open>A call either returns a value or raises; the state it leaves behind is kept in both cases.\<close>

type_synonym 'a outcome = "(error + 'a) \<times> world"

definition returns :: "'a \<Rightarrow> world \<Rightarrow> 'a outcome" where
  "returns v w = (Inr v, w)"

definition raises :: "error \<Rightarrow> world \<Rightarrow> 'a outcome" where
  "raises e w = (Inl e, w)"

text \<open>Statement sequencing: an exception skips the rest.\<close>

definition and_then :: "'a outcome \<Rightarrow> ('a \<Rightarrow> world \<Rightarrow> 'b outcome) \<Rightarrow> 'b outcome" where
  "and_then r f = (case r of (Inl e, w) \<Rightarrow> (Inl e, w) | (Inr v, w) \<Rightarrow> f v w)"


section \<open>\<open>WiseAgentContext\<close>\<close>

subsection \<open>Message trace and participants\<close>

text \<open>
  \<open>trace\<close> (lines 212 to 217): Redis gets the \<open>repr\<close> of the message, the class-level
  list the message object. The property \<open>message_trace\<close> reads the trace back: what the
  traced objects hold now, or what Redis was given.
\<close>

definition trace :: "WiseAgentContext \<Rightarrow> nat \<Rightarrow> world \<Rightarrow> world" where
  "trace self msg w =
     (if ctx_use_redis self
      then w\<lparr>redis := (redis w)\<lparr>redis_message_trace :=
             redis_message_trace (redis w) @ [read_message w msg]\<rparr>\<rparr>
      else w\<lparr>memory := (memory w)\<lparr>cls_message_trace := cls_message_trace (memory w) @ [msg]\<rparr>\<rparr>)"

definition message_trace :: "WiseAgentContext \<Rightarrow> world \<Rightarrow> WiseAgentMessage list" where
  "message_trace self w =
     (if ctx_use_redis self
      then redis_message_trace (redis w)
      else map (read_message w) (cls_message_trace (memory w)))"

text \<open>
  The property \<open>participants\<close>: the class-level list of \<open>str\<close>, or what
  \<open>lrange("participants", 0, -1)\<close> answers, a list of \<open>bytes\<close>.
\<close>

definition participants :: "WiseAgentContext \<Rightarrow> world \<Rightarrow> py_str list" where
  "participants self w =
     (if ctx_use_redis self
      then map Bytes (redis_participants (redis w))
      else map Str (cls_participants (memory w)))"

text \<open>
  \<open>add_participant\<close> (lines 240 to 271). A Redis list exists exactly when it is not
  empty. The membership test of the Redis branch looks for the \<open>str\<close> \<open>agent_name\<close>
  among the \<open>bytes\<close> that \<open>lrange\<close> answers.
\<close>

definition add_participant :: "WiseAgentContext \<Rightarrow> string \<Rightarrow> world \<Rightarrow> world" where
  "add_participant self agent_name w =
     (if ctx_use_redis self then
        (if redis_participants (redis w) = [] then
           w\<lparr>redis := (redis w)\<lparr>redis_participants := redis_participants (redis w) @ [agent_name]\<rparr>\<rparr>
         else if Str agent_name \<notin> set (map Bytes (redis_participants (redis w))) then
           w\<lparr>redis := (redis w)\<lparr>redis_participants := redis_participants (redis w) @ [agent_name]\<rparr>\<rparr>
         else w)
      else
        (if Str agent_name \<notin> set (participants self w) then
           w\<lparr>memory := (memory w)\<lparr>cls_participants := cls_participants (memory w) @ [agent_name]\<rparr>\<rparr>
         else w))"

subsection \<open>Chat history\<close>

text \<open>
  The property \<open>llm_chat_completion\<close>: the class-level dictionary, or a dictionary built
  from \<open>hgetall\<close> with the keys decoded to \<open>str\<close>.
\<close>

definition llm_chat_completion ::
  "WiseAgentContext \<Rightarrow> world \<Rightarrow> (string option \<rightharpoonup> ChatCompletionMessageParam list)" where
  "llm_chat_completion self w =
     (if ctx_use_redis self
      then (\<lambda>k. case k of None \<Rightarrow> None | Some c \<Rightarrow> redis_llm_chat_completion (redis w) c)
      else cls_llm_chat_completion (memory w))"

text \<open>
  \<open>append_chat_completion\<close> (lines 273 to 304). The Redis client refuses \<open>None\<close> as a
  hash field (\<open>DataError\<close>); a Python dictionary takes it as a key.
\<close>

definition append_chat_completion ::
  "WiseAgentContext \<Rightarrow> string option \<Rightarrow> ChatCompletionMessageParam \<Rightarrow> world \<Rightarrow> unit outcome" where
  "append_chat_completion self chat_uuid messages w =
     (if ctx_use_redis self then
        (case chat_uuid of
           None \<Rightarrow> raises DataError w
         | Some c \<Rightarrow>
             (case redis_llm_chat_completion (redis w) c of
                None \<Rightarrow>
                  returns () (w\<lparr>redis := (redis w)\<lparr>redis_llm_chat_completion :=
                    (redis_llm_chat_completion (redis w))(c \<mapsto> [messages])\<rparr>\<rparr>)
              | Some stored_messages \<Rightarrow>
                  returns () (w\<lparr>redis := (redis w)\<lparr>redis_llm_chat_completion :=
                    (redis_llm_chat_completion (redis w))(c \<mapsto> stored_messages @ [messages])\<rparr>\<rparr>)))
      else
        (let m = cls_llm_chat_completion (memory w);
             m1 = (if chat_uuid \<notin> dom m then m(chat_uuid \<mapsto> []) else m);
             m2 = (case m1 chat_uuid of
                     None \<Rightarrow> m1
                   | Some stored \<Rightarrow> m1(chat_uuid \<mapsto> stored @ [messages]))
         in returns () (w\<lparr>memory := (memory w)\<lparr>cls_llm_chat_completion := m2\<rparr>\<rparr>)))"

subsection \<open>Required tool calls\<close>

text \<open>
  The property \<open>llm_required_tool_call\<close>: the class-level dictionary (keys \<open>str\<close>), or
  a dictionary built from \<open>hgetall\<close> whose keys stay \<open>bytes\<close>.
\<close>

definition llm_required_tool_call ::
  "WiseAgentContext \<Rightarrow> world \<Rightarrow> (py_str \<rightharpoonup> string list)" where
  "llm_required_tool_call self w =
     (\<lambda>k. case k of
        Str c \<Rightarrow> (if ctx_use_redis self then None else cls_llm_required_tool_call (memory w) c)
      | Bytes c \<Rightarrow> (if ctx_use_redis self then redis_llm_required_tool_call (redis w) c else None))"

text \<open>\<open>append_required_tool_call\<close> (lines 319 to 347).\<close>

definition append_required_tool_call ::
  "WiseAgentContext \<Rightarrow> string \<Rightarrow> string \<Rightarrow> world \<Rightarrow> world" where
  "append_required_tool_call self chat_uuid tool_name w =
     (if ctx_use_redis self then
        (case redis_llm_required_tool_call (redis w) chat_uuid of
           None \<Rightarrow>
             w\<lparr>redis := (redis w)\<lparr>redis_llm_required_tool_call :=
               (redis_llm_required_tool_call (redis w))(chat_uuid \<mapsto> [tool_name])\<rparr>\<rparr>
         | Some stored_tool_names \<Rightarrow>
             w\<lparr>redis := (redis w)\<lparr>redis_llm_required_tool_call :=
               (redis_llm_required_tool_call (redis w))(chat_uuid \<mapsto> stored_tool_names @ [tool_name])\<rparr>\<rparr>)
      else
        (let m = cls_llm_required_tool_call (memory w);
             m1 = (if Str chat_uuid \<notin> dom (llm_required_tool_call self w)
                   then m(chat_uuid \<mapsto> []) else m);
             m2 = (case m1 chat_uuid of
                     None \<Rightarrow> m1
                   | Some stored \<Rightarrow> m1(chat_uuid \<mapsto> stored @ [tool_name]))
         in w\<lparr>memory := (memory w)\<lparr>cls_llm_required_tool_call := m2\<rparr>\<rparr>))"

text \<open>
  \<open>remove_required_tool_call\<close> (lines 349 to 382). The statements on the class-level
  dictionary (lines 379 to 382) are not in an \<open>else\<close>: they run when the context does
  not use Redis, and also after the Redis branch has left its loop by \<open>break\<close>. The
  Redis branch returns from the function when the hash has no field for the chat.
  \<open>list.remove\<close> raises \<open>ValueError\<close> for a name that is not in the list.
\<close>

definition remove_required_tool_call_memory ::
  "string \<Rightarrow> string \<Rightarrow> world \<Rightarrow> unit outcome" where
  "remove_required_tool_call_memory chat_uuid tool_name w =
     (case cls_llm_required_tool_call (memory w) chat_uuid of
        None \<Rightarrow> returns () w
      | Some stored \<Rightarrow>
          if tool_name \<in> set stored then
            (let stored' = remove1 tool_name stored in
             if length stored' = 0 then
               returns () (w\<lparr>memory := (memory w)\<lparr>cls_llm_required_tool_call :=
                 (cls_llm_required_tool_call (memory w))(chat_uuid := None)\<rparr>\<rparr>)
             else
               returns () (w\<lparr>memory := (memory w)\<lparr>cls_llm_required_tool_call :=
                 (cls_llm_required_tool_call (memory w))(chat_uuid \<mapsto> stored')\<rparr>\<rparr>))
          else raises ValueError w)"

definition remove_required_tool_call ::
  "WiseAgentContext \<Rightarrow> string \<Rightarrow> string \<Rightarrow> world \<Rightarrow> unit outcome" where
  "remove_required_tool_call self chat_uuid tool_name w =
     (if ctx_use_redis self then
        (case redis_llm_required_tool_call (redis w) chat_uuid of
           None \<Rightarrow> returns () w
         | Some stored_tool_names \<Rightarrow>
             if tool_name \<in> set stored_tool_names then
               (let stored' = remove1 tool_name stored_tool_names in
                if length stored' = 0 then
                  remove_required_tool_call_memory chat_uuid tool_name
                    (w\<lparr>redis := (redis w)\<lparr>redis_llm_required_tool_call :=
                      (redis_llm_required_tool_call (redis w))(chat_uuid := None)\<rparr>\<rparr>)
                else
                  remove_required_tool_call_memory chat_uuid tool_name
                    (w\<lparr>redis := (redis w)\<lparr>redis_llm_required_tool_call :=
                      (redis_llm_required_tool_call (redis w))(chat_uuid \<mapsto> stored')\<rparr>\<rparr>))
             else raises ValueError w)
      else remove_required_tool_call_memory chat_uuid tool_name w)"

definition get_required_tool_calls :: "WiseAgentContext \<Rightarrow> world \<Rightarrow> string \<Rightarrow> string list" where
  "get_required_tool_calls self w chat_uuid =
     (if ctx_use_redis self then
        (case redis_llm_required_tool_call (redis w) chat_uuid of
           Some llm_req_tools \<Rightarrow> llm_req_tools
         | None \<Rightarrow> [])
      else
        (case cls_llm_required_tool_call (memory w) chat_uuid of
           Some tools \<Rightarrow> tools
         | None \<Rightarrow> []))"

subsection \<open>Available tools\<close>

definition append_available_tool_in_chat ::
  "WiseAgentContext \<Rightarrow> string \<Rightarrow> ChatCompletionToolParam \<Rightarrow> world \<Rightarrow> world" where
  "append_available_tool_in_chat self chat_uuid tools w =
     (if ctx_use_redis self then
        (case redis_llm_available_tools_in_chat (redis w) chat_uuid of
           None \<Rightarrow>
             w\<lparr>redis := (redis w)\<lparr>redis_llm_available_tools_in_chat :=
               (redis_llm_available_tools_in_chat (redis w))(chat_uuid \<mapsto> [tools])\<rparr>\<rparr>
         | Some stored_tools \<Rightarrow>
             w\<lparr>redis := (redis w)\<lparr>redis_llm_available_tools_in_chat :=
               (redis_llm_available_tools_in_chat (redis w))(chat_uuid \<mapsto> stored_tools @ [tools])\<rparr>\<rparr>)
      else
        (let m = cls_llm_available_tools_in_chat (memory w);
             m1 = (if chat_uuid \<notin> dom m then m(chat_uuid \<mapsto> []) else m);
             m2 = (case m1 chat_uuid of
                     None \<Rightarrow> m1
                   | Some stored \<Rightarrow> m1(chat_uuid \<mapsto> stored @ [tools]))
         in w\<lparr>memory := (memory w)\<lparr>cls_llm_available_tools_in_chat := m2\<rparr>\<rparr>))"

definition get_available_tools_in_chat ::
  "WiseAgentContext \<Rightarrow> world \<Rightarrow> string \<Rightarrow> ChatCompletionToolParam list" where
  "get_available_tools_in_chat self w chat_uuid =
     (if ctx_use_redis self then
        (case redis_llm_available_tools_in_chat (redis w) chat_uuid of
           Some llm_av_tools \<Rightarrow> llm_av_tools
         | None \<Rightarrow> [])
      else
        (case cls_llm_available_tools_in_chat (memory w) chat_uuid of
           Some tools \<Rightarrow> tools
         | None \<Rightarrow> []))"

subsection \<open>Sequential coordination\<close>

definition get_agents_sequence :: "WiseAgentContext \<Rightarrow> world \<Rightarrow> string \<Rightarrow> string list" where
  "get_agents_sequence self w chat_uuid =
     (if ctx_use_redis self then
        (case redis_agents_sequence (redis w) chat_uuid of
           Some agent_sequence \<Rightarrow> agent_sequence
         | None \<Rightarrow> [])
      else
        (case cls_agents_sequence (memory w) chat_uuid of
           Some agent_sequence \<Rightarrow> agent_sequence
         | None \<Rightarrow> []))"

definition set_agents_sequence ::
  "WiseAgentContext \<Rightarrow> string \<Rightarrow> string list \<Rightarrow> world \<Rightarrow> world" where
  "set_agents_sequence self chat_uuid agents_sequence w =
     (if ctx_use_redis self
      then w\<lparr>redis := (redis w)\<lparr>redis_agents_sequence :=
             (redis_agents_sequence (redis w))(chat_uuid \<mapsto> agents_sequence)\<rparr>\<rparr>
      else w\<lparr>memory := (memory w)\<lparr>cls_agents_sequence :=
             (cls_agents_sequence (memory w))(chat_uuid \<mapsto> agents_sequence)\<rparr>\<rparr>)"

definition get_route_response_to :: "WiseAgentContext \<Rightarrow> world \<Rightarrow> string \<Rightarrow> string option" where
  "get_route_response_to self w chat_uuid =
     (if ctx_use_redis self
      then redis_route_response_to (redis w) chat_uuid
      else cls_route_response_to (memory w) chat_uuid)"

definition set_route_response_to ::
  "WiseAgentContext \<Rightarrow> string \<Rightarrow> string \<Rightarrow> world \<Rightarrow> world" where
  "set_route_response_to self chat_uuid agent w =
     (if ctx_use_redis self
      then w\<lparr>redis := (redis w)\<lparr>redis_route_response_to :=
             (redis_route_response_to (redis w))(chat_uuid \<mapsto> agent)\<rparr>\<rparr>
      else w\<lparr>memory := (memory w)\<lparr>cls_route_response_to :=
             (cls_route_response_to (memory w))(chat_uuid \<mapsto> agent)\<rparr>\<rparr>)"

text \<open>\<open>get_next_agent_in_sequence\<close> (lines 534 to 553).\<close>

definition get_next_agent_in_sequence ::
  "WiseAgentContext \<Rightarrow> world \<Rightarrow> string \<Rightarrow> string \<Rightarrow> string option" where
  "get_next_agent_in_sequence self w chat_uuid current_agent =
     (let agents_sequence = get_agents_sequence self w chat_uuid in
      if current_agent \<in> set agents_sequence then
        (let current_agent_index = index agents_sequence current_agent;
             next_agent_index = current_agent_index + 1
         in if next_agent_index < length agents_sequence
            then Some (agents_sequence ! next_agent_index)
            else None)
      else None)"


subsection \<open>Phased coordination\<close>

text \<open>
  \<open>get_agent_phase_assignments\<close> (lines 555 to 578) answers the stored list object, or
  a fresh copy unpickled from Redis; the embedding gives the contents the answer has at
  the time of the call.
\<close>

definition get_agent_phase_assignments ::
  "WiseAgentContext \<Rightarrow> world \<Rightarrow> string \<Rightarrow> string list list" where
  "get_agent_phase_assignments self w chat_uuid =
     (if ctx_use_redis self then
        (case redis_agent_phase_assignments (redis w) chat_uuid of
           Some agent_phase \<Rightarrow> agent_phase
         | None \<Rightarrow> [])
      else
        (case cls_agent_phase_assignments (memory w) chat_uuid of
           Some p \<Rightarrow> read_nested (heap w) p
         | None \<Rightarrow> []))"

text \<open>
  \<open>set_agent_phase_assignments\<close> (lines 580 to 594). The argument is the address of the
  caller's list of lists: the class-level dictionary keeps the address, Redis gets the
  pickled contents.
\<close>

definition set_agent_phase_assignments ::
  "WiseAgentContext \<Rightarrow> string \<Rightarrow> nat \<Rightarrow> world \<Rightarrow> world" where
  "set_agent_phase_assignments self chat_uuid agent_phase_assignments w =
     (if ctx_use_redis self
      then w\<lparr>redis := (redis w)\<lparr>redis_agent_phase_assignments :=
             (redis_agent_phase_assignments (redis w))
               (chat_uuid \<mapsto> read_nested (heap w) agent_phase_assignments)\<rparr>\<rparr>
      else w\<lparr>memory := (memory w)\<lparr>cls_agent_phase_assignments :=
             (cls_agent_phase_assignments (memory w))(chat_uuid \<mapsto> agent_phase_assignments)\<rparr>\<rparr>)"

definition get_current_phase :: "WiseAgentContext \<Rightarrow> world \<Rightarrow> string \<Rightarrow> int option" where
  "get_current_phase self w chat_uuid =
     (if ctx_use_redis self
      then redis_current_phase (redis w) chat_uuid
      else cls_current_phase (memory w) chat_uuid)"

text \<open>
  \<open>set_current_phase\<close> (lines 615 to 631). In memory, \<open>_current_phase\<close> is assigned
  before the phase's list is looked up, so a \<open>KeyError\<close> or \<open>IndexError\<close> of the
  lookup leaves the new phase number behind. With Redis the lookup happens while the
  pipeline is being put together, before anything is sent.
\<close>

definition set_current_phase ::
  "WiseAgentContext \<Rightarrow> string \<Rightarrow> int \<Rightarrow> world \<Rightarrow> unit outcome" where
  "set_current_phase self chat_uuid phase w =
     (if ctx_use_redis self then
        (case subscript (get_agent_phase_assignments self w chat_uuid) phase of
           None \<Rightarrow> raises IndexError w
         | Some agents \<Rightarrow>
             returns () (w\<lparr>redis := (redis w)
               \<lparr>redis_current_phase := (redis_current_phase (redis w))(chat_uuid \<mapsto> phase),
                redis_required_agents_for_current_phase :=
                  (redis_required_agents_for_current_phase (redis w))(chat_uuid \<mapsto> agents)\<rparr>\<rparr>))
      else
        (let w1 = w\<lparr>memory := (memory w)\<lparr>cls_current_phase :=
                    (cls_current_phase (memory w))(chat_uuid \<mapsto> phase)\<rparr>\<rparr>
         in case cls_agent_phase_assignments (memory w1) chat_uuid of
              None \<Rightarrow> raises KeyError w1
            | Some p \<Rightarrow>
                (case subscript (read_nested_refs (heap w1) p) phase of
                   None \<Rightarrow> raises IndexError w1
                 | Some a \<Rightarrow>
                     (let (r, h) = deepcopy a (heap w1)
                      in returns () (w1\<lparr>heap := h,
                           memory := (memory w1)\<lparr>cls_required_agents_for_current_phase :=
                             (cls_required_agents_for_current_phase (memory w1))(chat_uuid \<mapsto> r)\<rparr>\<rparr>)))))"

text \<open>
  \<open>get_agents_for_next_phase\<close> (lines 633 to 649). \<open>current_phase + 1\<close> raises
  \<open>TypeError\<close> when no phase has been set (\<open>get_current_phase\<close> answers \<open>None\<close>).
\<close>

definition get_agents_for_next_phase ::
  "WiseAgentContext \<Rightarrow> string \<Rightarrow> world \<Rightarrow> string list option outcome" where
  "get_agents_for_next_phase self chat_uuid w =
     (case get_current_phase self w chat_uuid of
        None \<Rightarrow> raises TypeError w
      | Some current_phase \<Rightarrow>
          (let next_phase = current_phase + 1 in
           if next_phase < int (length (get_agent_phase_assignments self w chat_uuid)) then
             and_then (set_current_phase self chat_uuid next_phase w)
               (\<lambda>_ w'. case subscript (get_agent_phase_assignments self w' chat_uuid) next_phase of
                          None \<Rightarrow> raises IndexError w'
                        | Some agents \<Rightarrow> returns (Some agents) w')
           else returns None w))"

definition get_required_agents_for_current_phase ::
  "WiseAgentContext \<Rightarrow> world \<Rightarrow> string \<Rightarrow> string list" where
  "get_required_agents_for_current_phase self w chat_uuid =
     (if ctx_use_redis self then
        (case redis_required_agents_for_current_phase (redis w) chat_uuid of
           Some req_agent \<Rightarrow> req_agent
         | None \<Rightarrow> [])
      else
        (case cls_required_agents_for_current_phase (memory w) chat_uuid of
           Some r \<Rightarrow> read_list (heap w) r
         | None \<Rightarrow> []))"

text \<open>
  \<open>remove_required_agent_for_current_phase\<close> (lines 674 to 706). The Redis branch
  deletes the hash field when the list becomes empty (\<open>hdel\<close>); the memory branch
  (lines 705 and 706) removes the name from the list object and does nothing else.
\<close>

definition remove_required_agent_for_current_phase ::
  "WiseAgentContext \<Rightarrow> string \<Rightarrow> string \<Rightarrow> world \<Rightarrow> unit outcome" where
  "remove_required_agent_for_current_phase self chat_uuid agent_name w =
     (if ctx_use_redis self then
        (case redis_required_agents_for_current_phase (redis w) chat_uuid of
           None \<Rightarrow> returns () w
         | Some stored_agents \<Rightarrow>
             if agent_name \<in> set stored_agents then
               (let stored' = remove1 agent_name stored_agents in
                if length stored' = 0 then
                  returns () (w\<lparr>redis := (redis w)\<lparr>redis_required_agents_for_current_phase :=
                    (redis_required_agents_for_current_phase (redis w))(chat_uuid := None)\<rparr>\<rparr>)
                else
                  returns () (w\<lparr>redis := (redis w)\<lparr>redis_required_agents_for_current_phase :=
                    (redis_required_agents_for_current_phase (redis w))(chat_uuid \<mapsto> stored')\<rparr>\<rparr>))
             else raises ValueError w)
      else
        (case cls_required_agents_for_current_phase (memory w) chat_uuid of
           None \<Rightarrow> returns () w
         | Some r \<Rightarrow>
             if agent_name \<in> set (read_list (heap w) r) then
               returns () (w\<lparr>heap := (heap w)\<lparr>str_lists :=
                 (str_lists (heap w))[r := remove1 agent_name (read_list (heap w) r)]\<rparr>\<rparr>)
             else raises ValueError w))"

subsection \<open>Queries\<close>

text \<open>
  \<open>get_current_query\<close> (lines 708 to 731): \<open>return_list[-1]\<close> is the last element,
  \<open>IndexError\<close> on an empty list; the memory branch tests the list for emptiness first
  and falls off the end of the function (\<open>None\<close>) when it is empty.
\<close>

definition get_current_query ::
  "WiseAgentContext \<Rightarrow> world \<Rightarrow> string \<Rightarrow> error + string option" where
  "get_current_query self w chat_uuid =
     (if ctx_use_redis self then
        (case redis_queries (redis w) chat_uuid of
           Some return_list \<Rightarrow>
             (case subscript return_list (- 1) of
                None \<Rightarrow> Inl IndexError
              | Some q \<Rightarrow> Inr (Some q))
         | None \<Rightarrow> Inr None)
      else
        (case cls_queries (memory w) chat_uuid of
           Some qs \<Rightarrow> (if qs \<noteq> [] then Inr (subscript qs (- 1)) else Inr None)
         | None \<Rightarrow> Inr None))"

text \<open>
  \<open>add_query\<close> (lines 733 to 762). For a chat without a field the Redis branch issues
  \<open>hset\<close> while it is watching \<open>queries\<close> and has not called \<open>multi()\<close>: the
  field is written at once, which changes the watched key, so \<open>execute()\<close> raises
  \<open>WatchError\<close> and the loop runs again. This time the field exists, and the query is
  appended to the list that already holds it: the first query of a chat is stored twice.
\<close>

definition add_query :: "WiseAgentContext \<Rightarrow> string \<Rightarrow> string \<Rightarrow> world \<Rightarrow> world" where
  "add_query self chat_uuid query w =
     (if ctx_use_redis self then
        (case redis_queries (redis w) chat_uuid of
           None \<Rightarrow>
             w\<lparr>redis := (redis w)\<lparr>redis_queries :=
               (redis_queries (redis w))(chat_uuid \<mapsto> [query] @ [query])\<rparr>\<rparr>
         | Some stored_queries \<Rightarrow>
             w\<lparr>redis := (redis w)\<lparr>redis_queries :=
               (redis_queries (redis w))(chat_uuid \<mapsto> stored_queries @ [query])\<rparr>\<rparr>)
      else
        (let m = cls_queries (memory w);
             m1 = (if chat_uuid \<notin> dom m then m(chat_uuid \<mapsto> []) else m);
             m2 = (case m1 chat_uuid of
                     None \<Rightarrow> m1
                   | Some stored \<Rightarrow> m1(chat_uuid \<mapsto> stored @ [query]))
         in w\<lparr>memory := (memory w)\<lparr>cls_queries := m2\<rparr>\<rparr>))"

definition get_queries :: "WiseAgentContext \<Rightarrow> world \<Rightarrow> string \<Rightarrow> string list" where
  "get_queries self w chat_uuid =
     (if ctx_use_redis self then
        (case redis_queries (redis w) chat_uuid of
           Some query \<Rightarrow> query
         | None \<Rightarrow> [])
      else
        (case cls_queries (memory w) chat_uuid of
           Some qs \<Rightarrow> qs
         | None \<Rightarrow> []))"

subsection \<open>Collaboration type\<close>

text \<open>
  \<open>get_collaboration_type\<close> (lines 794 to 813); \<open>chat_uuid\<close> may be \<open>None\<close>. In
  the Redis branch the \<open>else\<close> with the default belongs to \<open>if chat_uuid is not None\<close>:
  for a chat id without a field in the hash no \<open>return\<close> is reached and the function
  answers \<open>None\<close>. A class-level dictionary is keyed by \<open>str\<close>, so \<open>None\<close> is never
  in it.
\<close>

definition get_collaboration_type ::
  "WiseAgentContext \<Rightarrow> world \<Rightarrow> string option \<Rightarrow> WiseAgentCollaborationType option" where
  "get_collaboration_type self w chat_uuid =
     (if ctx_use_redis self then
        (case chat_uuid of
           Some c \<Rightarrow>
             (case redis_collaboration_type (redis w) c of
                Some collaboration_type \<Rightarrow> Some collaboration_type
              | None \<Rightarrow> None)
         | None \<Rightarrow> Some INDEPENDENT)
      else
        (case chat_uuid of
           Some c \<Rightarrow>
             (case cls_collaboration_type (memory w) c of
                Some collaboration_type \<Rightarrow> Some collaboration_type
              | None \<Rightarrow> Some INDEPENDENT)
         | None \<Rightarrow> Some INDEPENDENT))"

definition set_collaboration_type ::
  "WiseAgentContext \<Rightarrow> string \<Rightarrow> WiseAgentCollaborationType \<Rightarrow> world \<Rightarrow> world" where
  "set_collaboration_type self chat_uuid collaboration_type w =
     (if ctx_use_redis self
      then w\<lparr>redis := (redis w)\<lparr>redis_collaboration_type :=
             (redis_collaboration_type (redis w))(chat_uuid \<mapsto> collaboration_type)\<rparr>\<rparr>
      else w\<lparr>memory := (memory w)\<lparr>cls_collaboration_type :=
             (cls_collaboration_type (memory w))(chat_uuid \<mapsto> collaboration_type)\<rparr>\<rparr>)"

section \<open>\<open>WiseAgentRegistry\<close>\<close>

text \<open>
  \<open>register_agent\<close> (lines 1189 to 1213). With Redis the hash \<open>agents\<close> is tested and
  written, and every path of the loop returns or raises. Without Redis the method reads
  and writes the class attribute \<open>agents\<close>; looking up an attribute that does not exist
  raises \<open>AttributeError\<close>.
\<close>

definition register_agent :: "string \<Rightarrow> string \<Rightarrow> world \<Rightarrow> unit outcome" where
  "register_agent agent_name agent_description w =
     (if reg_use_redis (registry w) then
        (if agent_name \<in> dom (redis_agents (redis w)) then raises NameError w
         else returns () (w\<lparr>redis := (redis w)\<lparr>redis_agents :=
                (redis_agents (redis w))(agent_name \<mapsto> agent_description)\<rparr>\<rparr>))
      else
        (case reg_agents (registry w) of
           None \<Rightarrow> raises AttributeError w
         | Some agents \<Rightarrow>
             if agents agent_name \<noteq> None then raises NameError w
             else returns () (w\<lparr>registry := (registry w)\<lparr>reg_agents :=
                    Some (agents(agent_name \<mapsto> agent_description))\<rparr>\<rparr>)))"

definition register_context :: "WiseAgentContext \<Rightarrow> world \<Rightarrow> world" where
  "register_context context w =
     (if reg_use_redis (registry w)
      then w\<lparr>redis := (redis w)\<lparr>redis_contexts :=
             (redis_contexts (redis w))(ctx_name context \<mapsto> context)\<rparr>\<rparr>
      else w\<lparr>registry := (registry w)\<lparr>reg_contexts :=
             (reg_contexts (registry w))(ctx_name context \<mapsto> context)\<rparr>\<rparr>)"

definition fetch_agents_descriptions_dict :: "world \<Rightarrow> (py_str \<rightharpoonup> py_str)" where
  "fetch_agents_descriptions_dict w =
     (\<lambda>k. case k of
        Str n \<Rightarrow> (if reg_use_redis (registry w) then None
                  else map_option Str (reg_agents_descriptions_dict (registry w) n))
      | Bytes n \<Rightarrow> (if reg_use_redis (registry w) then map_option Bytes (redis_agents (redis w) n)
                    else None))"

definition get_agent_description :: "world \<Rightarrow> string \<Rightarrow> string option" where
  "get_agent_description w agent_name =
     (if reg_use_redis (registry w)
      then redis_agents (redis w) agent_name
      else reg_agents_descriptions_dict (registry w) agent_name)"

text \<open>
  \<open>WiseAgentContext.__init__\<close> (lines 160 to 171): the new instance takes its name and
  its backend from the arguments and registers itself.
\<close>

definition new_WiseAgentContext :: "string \<Rightarrow> bool \<Rightarrow> world \<Rightarrow> WiseAgentContext \<times> world" where
  "new_WiseAgentContext name use_redis w =
     (let self = \<lparr>ctx_name = name, ctx_use_redis = use_redis\<rparr>
      in (self, register_context self w))"

text \<open>\<open>get_or_create_context\<close> (lines 1261 to 1277).\<close>

definition get_or_create_context :: "string \<Rightarrow> world \<Rightarrow> WiseAgentContext \<times> world" where
  "get_or_create_context name w =
     (let context = (if reg_use_redis (registry w)
                     then redis_contexts (redis w) name
                     else reg_contexts (registry w) name)
      in case context of
           None \<Rightarrow> new_WiseAgentContext name (reg_use_redis (registry w)) w
         | Some c \<Rightarrow> (c, w))"


section \<open>\<open>WiseAgent\<close>\<close>

record WiseAgent =
  wa_name :: string
  wa_description :: string

text \<open>
  \<open>send_request\<close> and \<open>send_response\<close> (lines 935 to 957): stamp the sender, resolve
  the context through the registry, add the agent as a participant, hand the message to
  the transport, trace it.
\<close>

definition send_request :: "WiseAgent \<Rightarrow> nat \<Rightarrow> string \<Rightarrow> world \<Rightarrow> world" where
  "send_request self msg dest_agent_name w =
     (let w0 = set_sender msg (wa_name self) w;
          (context, w1) = get_or_create_context (context_name (read_message w0 msg)) w0;
          w2 = add_participant context (wa_name self) w1;
          w3 = w2\<lparr>transport := transport w2 @ [Request (read_message w2 msg) dest_agent_name]\<rparr>
      in trace context msg w3)"

definition send_response :: "WiseAgent \<Rightarrow> nat \<Rightarrow> string \<Rightarrow> world \<Rightarrow> world" where
  "send_response self msg dest_agent_name w =
     (let w0 = set_sender msg (wa_name self) w;
          (context, w1) = get_or_create_context (context_name (read_message w0 msg)) w0;
          w2 = add_participant context (wa_name self) w1;
          w3 = w2\<lparr>transport := transport w2 @ [Response (read_message w2 msg) dest_agent_name]\<rparr>
      in trace context msg w3)"

text \<open>Truth value of an \<open>Optional[str]\<close>: \<open>None\<close> and the empty string are false.\<close>

definition truthy :: "string option \<Rightarrow> bool" where
  "truthy s = (case s of None \<Rightarrow> False | Some t \<Rightarrow> t \<noteq> [])"

text \<open>
  \<open>get_conversation_history_if_needed\<close> (lines 980 to 1003). \<open>dict.get\<close> answers
  \<open>None\<close> for a chat id nothing was stored for; \<open>Some []\<close> is the empty list of the
  last line.
\<close>

definition get_conversation_history_if_needed ::
  "WiseAgent \<Rightarrow> WiseAgentContext \<Rightarrow> world \<Rightarrow> string option \<Rightarrow>
   WiseAgentCollaborationType option \<Rightarrow> ChatCompletionMessageParam list option" where
  "get_conversation_history_if_needed self context w chat collaboration_type =
     (if truthy chat then
        (if collaboration_type = Some PHASED \<or> collaboration_type = Some CHAT
         then llm_chat_completion context w chat
         else Some [])
      else Some [])"

text \<open>
  \<open>handle_response\<close> (lines 1023 to 1069). In the sequential branch the argument of
  \<open>logging.debug\<close> concatenates strings with \<open>get_route_response_to(...)\<close>, which
  raises \<open>TypeError\<close> when no route is set. The context methods of that branch take a
  \<open>str\<close>; for a request without chat id the class-level dictionaries have no entry,
  which ends in the same \<open>TypeError\<close>, and the Redis client refuses the field
  (\<open>DataError\<close>). Every message that is sent is a new \<open>WiseAgentMessage\<close> object.
\<close>

definition handle_response ::
  "WiseAgent \<Rightarrow> string option \<Rightarrow> WiseAgentMessage \<Rightarrow> WiseAgentContext \<Rightarrow>
   WiseAgentCollaborationType option \<Rightarrow> world \<Rightarrow> bool outcome" where
  "handle_response self response_str request context collaboration_type w =
     (case response_str of
        None \<Rightarrow> returns True w
      | Some response \<Rightarrow>
          if response = [] then returns True w
          else if collaboration_type = Some PHASED \<or> collaboration_type = Some CHAT then
            and_then
              (append_chat_completion context (chat_id request)
                 \<lparr>role = ''assistant'', content = response\<rparr> w)
              (\<lambda>_ w1.
                 (let (ack, w2) = new_message
                        \<lparr>message = response, message_type = Some ACK, sender = wa_name self,
                         context_name = ctx_name context, chat_id = chat_id request\<rparr> w1
                  in returns True (send_response self ack (sender request) w2)))
          else if collaboration_type = Some SEQUENTIAL then
            (case chat_id request of
               None \<Rightarrow> raises (if ctx_use_redis context then DataError else TypeError) w
             | Some c \<Rightarrow>
                 (case get_next_agent_in_sequence context w c (wa_name self) of
                    None \<Rightarrow>
                      (case get_route_response_to context w c of
                         None \<Rightarrow> raises TypeError w
                       | Some route \<Rightarrow>
                           (let (final, w1) = new_message
                                  \<lparr>message = response, message_type = None,
                                   sender = wa_name self, context_name = ctx_name context,
                                   chat_id = chat_id request\<rparr> w
                            in returns True (send_response self final route w1)))
                  | Some next_agent \<Rightarrow>
                      (let (forwarded, w1) = new_message
                             \<lparr>message = response, message_type = None, sender = wa_name self,
                              context_name = ctx_name context, chat_id = chat_id request\<rparr> w
                       in returns True (send_request self forwarded next_agent w1))))
          else
            (let (reply, w1) = new_message
                   \<lparr>message = response, message_type = None, sender = wa_name self,
                    context_name = ctx_name context, chat_id = chat_id request\<rparr> w
             in returns True (send_response self reply (sender request) w1)))"

text \<open>
  \<open>handle_request\<close> (lines 959 to 978). \<open>process_request\<close> is abstract in
  \<open>WiseAgent\<close>: it is a parameter, a function of the request and the conversation
  history that may work on the state and may raise.
\<close>

definition handle_request ::
  "WiseAgent \<Rightarrow>
   (WiseAgentMessage \<Rightarrow> ChatCompletionMessageParam list option \<Rightarrow> world \<Rightarrow> string option outcome) \<Rightarrow>
   WiseAgentMessage \<Rightarrow> world \<Rightarrow> bool outcome" where
  "handle_request self process_request request w =
     (let (context, w1) = get_or_create_context (context_name request) w;
          collaboration_type = get_collaboration_type context w1 (chat_id request);
          conversation_history =
            get_conversation_history_if_needed self context w1 (chat_id request) collaboration_type
      in and_then (process_request request conversation_history w1)
           (\<lambda>response_str w2. handle_response self response_str request context collaboration_type w2))"


section \<open>Auxiliary notions\<close>

text \<open>
  A chat id no mutator has been called on has no entry in any dictionary of the class and
  no field in any hash of the server.
\<close>

definition unseen :: "world \<Rightarrow> string \<Rightarrow> bool" where
  "unseen w c \<longleftrightarrow>
     cls_llm_chat_completion (memory w) (Some c) = None \<and>
     cls_llm_required_tool_call (memory w) c = None \<and>
     cls_llm_available_tools_in_chat (memory w) c = None \<and>
     cls_agents_sequence (memory w) c = None \<and>
     cls_route_response_to (memory w) c = None \<and>
     cls_agent_phase_assignments (memory w) c = None \<and>
     cls_current_phase (memory w) c = None \<and>
     cls_required_agents_for_current_phase (memory w) c = None \<and>
     cls_queries (memory w) c = None \<and>
     cls_collaboration_type (memory w) c = None \<and>
     redis_llm_chat_completion (redis w) c = None \<and>
     redis_llm_required_tool_call (redis w) c = None \<and>
     redis_llm_available_tools_in_chat (redis w) c = None \<and>
     redis_agents_sequence (redis w) c = None \<and>
     redis_route_response_to (redis w) c = None \<and>
     redis_agent_phase_assignments (redis w) c = None \<and>
     redis_current_phase (redis w) c = None \<and>
     redis_required_agents_for_current_phase (redis w) c = None \<and>
     redis_queries (redis w) c = None \<and>
     redis_collaboration_type (redis w) c = None"

text \<open>
  The history selection in the words of the spec, to be compared with
  \<open>get_conversation_history_if_needed\<close>: the context's chat history of the chat id when
  the mode is PHASED or CHAT, the empty list otherwise. The chat history of a chat id
  nothing was stored for is the empty sequence, as the spec has it for every query
  against an absent chat id; the result is always a list.
\<close>

definition history_by_spec ::
  "WiseAgentContext \<Rightarrow> world \<Rightarrow> string option \<Rightarrow> WiseAgentCollaborationType option \<Rightarrow>
   ChatCompletionMessageParam list option" where
  "history_by_spec context w chat mode =
     (if mode = Some PHASED \<or> mode = Some CHAT
      then Some (case llm_chat_completion context w chat of None \<Rightarrow> [] | Some h \<Rightarrow> h)
      else Some [])"

section \<open>Properties\<close>

lemmas world_defs = initial_world_def empty_context_class_def empty_redis_server_def

lemmas heap_defs = new_nested_def new_list_def read_list_def read_nested_def
  read_nested_refs_def deepcopy_def subscript_def valid_nested_def valid_list_def

lemmas phase_defs = set_agent_phase_assignments_def set_current_phase_def
  remove_required_agent_for_current_phase_def get_required_agents_for_current_phase_def
  get_agents_for_next_phase_def get_current_phase_def get_agent_phase_assignments_def
  returns_def raises_def and_then_def

subsection \<open>Required tool calls\<close>

text \<open>
  Claim C8. Appending a tool name for a chat that has no pending tool call and then
  removing the same name leaves no entry for the chat: in between the chat's pending list
  is exactly that name, the removal returns normally, and the state after it is the state
  before the append. For a context on Redis the class-level dictionary must be free of the
  chat as well, because the removal goes on to it after the Redis part.
\<close>

theorem append_then_remove_required_tool_call:
  assumes "cls_llm_required_tool_call (memory w) chat_uuid = None"
      and "ctx_use_redis self \<Longrightarrow> redis_llm_required_tool_call (redis w) chat_uuid = None"
  shows "get_required_tool_calls self (append_required_tool_call self chat_uuid tool_name w) chat_uuid
           = [tool_name]
         \<and> remove_required_tool_call self chat_uuid tool_name
             (append_required_tool_call self chat_uuid tool_name w) = (Inr (), w)"
proof (cases "ctx_use_redis self")
  case True
  with assms show ?thesis
    by (simp add: get_required_tool_calls_def append_required_tool_call_def
        remove_required_tool_call_def remove_required_tool_call_memory_def returns_def
        fun_upd_idem)
next
  case False
  with assms show ?thesis
    by (simp add: get_required_tool_calls_def append_required_tool_call_def
        remove_required_tool_call_def remove_required_tool_call_memory_def returns_def
        llm_required_tool_call_def dom_def fun_upd_idem)
qed

theorem append_then_remove_required_tool_call_witness:
  "cls_llm_required_tool_call (memory (initial_world False)) ''chat'' = None
   \<and> get_required_tool_calls \<lparr>ctx_name = ''ctx'', ctx_use_redis = False\<rparr>
        (append_required_tool_call \<lparr>ctx_name = ''ctx'', ctx_use_redis = False\<rparr>
           ''chat'' ''toolX'' (initial_world False)) ''chat''
       = [''toolX'']
   \<and> remove_required_tool_call \<lparr>ctx_name = ''ctx'', ctx_use_redis = False\<rparr> ''chat'' ''toolX''
        (append_required_tool_call \<lparr>ctx_name = ''ctx'', ctx_use_redis = False\<rparr>
           ''chat'' ''toolX'' (initial_world False))
       = (Inr (), initial_world False)"
  using append_then_remove_required_tool_call
    [of "initial_world False" "''chat''" "\<lparr>ctx_name = ''ctx'', ctx_use_redis = False\<rparr>" "''toolX''"]
  by (simp add: world_defs)

subsection \<open>Removing what is not there\<close>

text \<open>
  Claim C9 (as amended). For a chat id that has no entry in the map of the context's
  backend, \<open>remove_required_tool_call\<close> and \<open>remove_required_agent_for_current_phase\<close>
  return normally and leave the state unchanged.
\<close>

theorem remove_without_entry_is_noop:
  "((if ctx_use_redis self then redis_llm_required_tool_call (redis w) chat_uuid
     else cls_llm_required_tool_call (memory w) chat_uuid) = None
    \<longrightarrow> remove_required_tool_call self chat_uuid tool_name w = (Inr (), w))
   \<and> ((if ctx_use_redis self then redis_required_agents_for_current_phase (redis w) chat_uuid = None
        else cls_required_agents_for_current_phase (memory w) chat_uuid = None)
    \<longrightarrow> remove_required_agent_for_current_phase self chat_uuid agent_name w = (Inr (), w))"
  by (simp add: remove_required_tool_call_def remove_required_tool_call_memory_def
      remove_required_agent_for_current_phase_def returns_def)

theorem remove_without_entry_is_noop_witness:
  "cls_llm_required_tool_call (memory (initial_world False)) ''chat'' = None
   \<and> remove_required_tool_call \<lparr>ctx_name = ''ctx'', ctx_use_redis = False\<rparr> ''chat'' ''toolX''
        (initial_world False) = (Inr (), initial_world False)
   \<and> cls_required_agents_for_current_phase (memory (initial_world False)) ''chat'' = None
   \<and> remove_required_agent_for_current_phase \<lparr>ctx_name = ''ctx'', ctx_use_redis = False\<rparr>
        ''chat'' ''agent1'' (initial_world False) = (Inr (), initial_world False)"
  using remove_without_entry_is_noop
    [of "\<lparr>ctx_name = ''ctx'', ctx_use_redis = False\<rparr>" "initial_world False" "''chat''"
        "''toolX''" "''agent1''"]
  by (simp add: world_defs)

text \<open>
  The claim as the spec has it fails: with \<open>toolX\<close> pending for the chat, removing
  \<open>toolY\<close>, which is not present, raises \<open>ValueError\<close>.
\<close>

theorem remove_absent_tool_name_raises:
  "fst (remove_required_tool_call \<lparr>ctx_name = ''ctx'', ctx_use_redis = False\<rparr> ''chat'' ''toolY''
          (append_required_tool_call \<lparr>ctx_name = ''ctx'', ctx_use_redis = False\<rparr>
             ''chat'' ''toolX'' (initial_world False)))
     = Inl ValueError"
  by (simp add: append_required_tool_call_def remove_required_tool_call_def
      remove_required_tool_call_memory_def raises_def llm_required_tool_call_def dom_def
      world_defs)

text \<open>
  In general: a name that is missing from the list a chat does have makes either removal
  raise \<open>ValueError\<close>, on both backends, with the state as it was.
\<close>

lemma remove_missing_name_raises:
  shows "(if ctx_use_redis self then redis_llm_required_tool_call (redis w) chat_uuid
          else cls_llm_required_tool_call (memory w) chat_uuid) = Some stored
         \<Longrightarrow> tool_name \<notin> set stored
         \<Longrightarrow> remove_required_tool_call self chat_uuid tool_name w = (Inl ValueError, w)"
    and "get_required_agents_for_current_phase self w chat_uuid = agents
         \<Longrightarrow> (if ctx_use_redis self then redis_required_agents_for_current_phase (redis w) chat_uuid
              else map_option (read_list (heap w))
                     (cls_required_agents_for_current_phase (memory w) chat_uuid)) \<noteq> None
         \<Longrightarrow> agent_name \<notin> set agents
         \<Longrightarrow> remove_required_agent_for_current_phase self chat_uuid agent_name w
               = (Inl ValueError, w)"
  by (auto simp add: remove_required_tool_call_def remove_required_tool_call_memory_def
      remove_required_agent_for_current_phase_def get_required_agents_for_current_phase_def
      raises_def split: if_splits)


subsection \<open>Participants\<close>

text \<open>
  Claim C10. On the Redis backend \<open>add_participant\<close> is not idempotent: two calls with
  the same agent id on a fresh server leave two occurrences in the participants list. The
  membership test compares the \<open>str\<close> with the \<open>bytes\<close> that \<open>lrange\<close> answers
  and never finds it.
\<close>

theorem add_participant_redis_twice:
  "participants \<lparr>ctx_name = ''ctx'', ctx_use_redis = True\<rparr>
     (add_participant \<lparr>ctx_name = ''ctx'', ctx_use_redis = True\<rparr> ''agent1''
        (add_participant \<lparr>ctx_name = ''ctx'', ctx_use_redis = True\<rparr> ''agent1''
           (initial_world True)))
   = [Bytes ''agent1'', Bytes ''agent1'']"
  by (simp add: participants_def add_participant_def world_defs)

text \<open>On Redis every call appends the id.\<close>

lemma add_participant_redis_appends:
  assumes "ctx_use_redis self"
  shows "redis_participants (redis (add_participant self a w)) = redis_participants (redis w) @ [a]"
  using assms by (auto simp add: add_participant_def)

text \<open>
  On the class-level list the claim holds: the second call changes nothing, and an id that
  was not a participant occurs exactly once afterwards.
\<close>

lemma add_participant_memory_idempotent:
  assumes "\<not> ctx_use_redis self"
  shows "add_participant self a (add_participant self a w) = add_participant self a w"
    and "a \<notin> set (cls_participants (memory w))
         \<Longrightarrow> count_list (cls_participants (memory (add_participant self a w))) a = 1"
    and "a \<in> set (cls_participants (memory w)) \<Longrightarrow> add_participant self a w = w"
  using assms
  by (auto simp add: add_participant_def participants_def image_iff count_list_0_iff)

subsection \<open>Defaults for chats nothing has been stored for\<close>

text \<open>
  Claim C5. On the Redis backend \<open>get_collaboration_type\<close> answers \<open>None\<close>, not
  \<open>INDEPENDENT\<close>, for a chat id no mutator has been called on.
\<close>

theorem get_collaboration_type_redis_unseen_chat:
  "get_collaboration_type \<lparr>ctx_name = ''ctx'', ctx_use_redis = True\<rparr> (initial_world True)
     (Some ''chat'')
   = None"
  by (simp add: get_collaboration_type_def world_defs)

text \<open>
  Every other getter answers its default on both backends, and \<open>get_collaboration_type\<close>
  does on the class-level dictionary.
\<close>

lemma unseen_chat_defaults:
  assumes "unseen w c"
  shows "get_agents_sequence self w c = []"
    and "get_required_tool_calls self w c = []"
    and "get_available_tools_in_chat self w c = []"
    and "get_agent_phase_assignments self w c = []"
    and "get_required_agents_for_current_phase self w c = []"
    and "get_queries self w c = []"
    and "get_route_response_to self w c = None"
    and "get_current_phase self w c = None"
    and "get_current_query self w c = Inr None"
    and "get_collaboration_type self w (Some c)
           = (if ctx_use_redis self then None else Some INDEPENDENT)"
  using assms
  by (simp_all add: unseen_def get_agents_sequence_def get_required_tool_calls_def
      get_available_tools_in_chat_def get_agent_phase_assignments_def
      get_required_agents_for_current_phase_def get_queries_def get_route_response_to_def
      get_current_phase_def get_current_query_def get_collaboration_type_def)

lemma unseen_initial_world: "unseen (initial_world b) c"
  by (simp add: unseen_def world_defs)

subsection \<open>Agent registration\<close>

text \<open>
  Claim C4. Without Redis, registering an agent under a name that is not yet present
  raises \<open>AttributeError\<close> and stores nothing: \<open>register_agent\<close> reads the class
  attribute \<open>agents\<close>, and the class has \<open>agents_descriptions_dict\<close> instead.
\<close>

theorem register_agent_memory_raises:
  "register_agent ''agent1'' ''first agent'' (initial_world False)
     = (Inl AttributeError, initial_world False)"
  by (simp add: register_agent_def initial_world_def raises_def)

text \<open>
  The same on every state in which nobody has assigned the attribute from outside.
\<close>

lemma register_agent_memory_undefined_attribute:
  assumes "\<not> reg_use_redis (registry w)" and "reg_agents (registry w) = None"
  shows "register_agent n d w = (Inl AttributeError, w)"
  using assms by (simp add: register_agent_def raises_def)

text \<open>With Redis the method does what the claim says.\<close>

lemma register_agent_redis:
  assumes "reg_use_redis (registry w)"
  shows "redis_agents (redis w) n = None \<Longrightarrow>
           fst (register_agent n d w) = Inr ()
           \<and> redis_agents (redis (snd (register_agent n d w))) = (redis_agents (redis w))(n \<mapsto> d)"
    and "redis_agents (redis w) n = Some d0 \<Longrightarrow> register_agent n d w = (Inl NameError, w)"
  using assms by (auto simp add: register_agent_def returns_def raises_def)

subsection \<open>The phased protocol\<close>

text \<open>
  Claim C2. The scenario of the claim on the class-level dictionaries: phases
  \<open>[[A, B], [C]]\<close>, phase 0 set, \<open>A\<close> and \<open>B\<close> removed, then two calls of
  \<open>get_agents_for_next_phase\<close>. The required agents after \<open>set_current_phase\<close> are
  \<open>[A, B]\<close>, the first call for the next phase answers \<open>[C]\<close> and sets the phase to 1,
  the second answers \<open>None\<close> and leaves the phase at 1. After both removals, however, the
  chat still has its entry in \<open>_required_agents_for_current_phase\<close>: an empty list.
\<close>

theorem required_agents_key_survives_removal:
  "(let self = \<lparr>ctx_name = ''ctx'', ctx_use_redis = False\<rparr>;
        w0 = initial_world False;
        (phases, h) = new_nested [[''A'', ''B''], [''C'']] (heap w0);
        w1 = set_agent_phase_assignments self ''chat'' phases (w0\<lparr>heap := h\<rparr>);
        (r2, w2) = set_current_phase self ''chat'' 0 w1;
        (r3, w3) = remove_required_agent_for_current_phase self ''chat'' ''A'' w2;
        (r4, w4) = remove_required_agent_for_current_phase self ''chat'' ''B'' w3;
        (r5, w5) = get_agents_for_next_phase self ''chat'' w4;
        (r6, w6) = get_agents_for_next_phase self ''chat'' w5
    in (get_required_agents_for_current_phase self w2 ''chat'',
        map_option (read_list (heap w4))
          (cls_required_agents_for_current_phase (memory w4) ''chat''),
        r5, get_current_phase self w5 ''chat'',
        r6, get_current_phase self w6 ''chat''))
   = ([''A'', ''B''], Some [], Inr (Some [''C'']), Some 1, Inr None, Some 1)"
  by (simp add: world_defs heap_defs phase_defs Let_def)

text \<open>On Redis the same scenario ends with the field deleted.\<close>

lemma phased_protocol_redis:
  "(let self = \<lparr>ctx_name = ''ctx'', ctx_use_redis = True\<rparr>;
        w0 = initial_world True;
        (phases, h) = new_nested [[''A'', ''B''], [''C'']] (heap w0);
        w1 = set_agent_phase_assignments self ''chat'' phases (w0\<lparr>heap := h\<rparr>);
        (r2, w2) = set_current_phase self ''chat'' 0 w1;
        (r3, w3) = remove_required_agent_for_current_phase self ''chat'' ''A'' w2;
        (r4, w4) = remove_required_agent_for_current_phase self ''chat'' ''B'' w3;
        (r5, w5) = get_agents_for_next_phase self ''chat'' w4;
        (r6, w6) = get_agents_for_next_phase self ''chat'' w5
    in (get_required_agents_for_current_phase self w2 ''chat'',
        redis_required_agents_for_current_phase (redis w4) ''chat'',
        r5, get_current_phase self w5 ''chat'',
        r6, get_current_phase self w6 ''chat''))
   = ([''A'', ''B''], None, Inr (Some [''C'']), Some 1, Inr None, Some 1)"
  by (simp add: world_defs heap_defs phase_defs Let_def)

text \<open>
  The memory branch never deletes the entry, whatever is removed: a chat with an entry
  keeps it.
\<close>

lemma memory_removal_keeps_key:
  assumes "\<not> ctx_use_redis self"
      and "cls_required_agents_for_current_phase (memory w) chat_uuid = Some r"
  shows "cls_required_agents_for_current_phase
           (memory (snd (remove_required_agent_for_current_phase self chat_uuid agent_name w)))
           chat_uuid = Some r"
  using assms
  by (simp add: remove_required_agent_for_current_phase_def returns_def raises_def)

subsection \<open>Snapshot independence\<close>

lemma subscript_map: "subscript (map f xs) i = map_option f (subscript xs i)"
proof -
  have "- int (length xs) \<le> i \<Longrightarrow> i < 0 \<Longrightarrow> nat (int (length xs) + i) < length xs"
    by linarith
  moreover have "0 \<le> i \<Longrightarrow> i < int (length xs) \<Longrightarrow> nat i < length xs"
    by linarith
  ultimately show ?thesis
    by (auto simp add: subscript_def)
qed

lemma read_nested_preserved:
  assumes "valid_nested h p"
      and "nested_lists h' = nested_lists h"
      and "length (str_lists h) \<le> length (str_lists h')"
      and "\<And>a. a < length (str_lists h) \<Longrightarrow> str_lists h' ! a = str_lists h ! a"
  shows "read_nested h' p = read_nested h p"
  using assms
  by (auto simp add: read_nested_def read_nested_refs_def read_list_def valid_nested_def
      valid_list_def list_all_iff)

lemma snapshot_memory:
  assumes mem: "\<not> ctx_use_redis self"
      and valid: "valid_nested (heap w) phases"
      and idx: "subscript (read_nested (heap w) phases) i = Some agents"
  shows "let w1 = set_agent_phase_assignments self chat phases w;
             (r2, w2) = set_current_phase self chat i w1;
             (r3, w3) = remove_required_agent_for_current_phase self chat agent w2
         in r2 = Inr ()
            \<and> get_required_agents_for_current_phase self w2 chat = agents
            \<and> get_agent_phase_assignments self w2 chat = read_nested (heap w) phases
            \<and> r3 = (if agent \<in> set agents then Inr () else Inl ValueError)
            \<and> get_required_agents_for_current_phase self w3 chat
                = (if agent \<in> set agents then remove1 agent agents else agents)
            \<and> get_agent_phase_assignments self w3 chat = read_nested (heap w) phases
            \<and> read_nested (heap w3) phases = read_nested (heap w) phases"
proof -
  let ?h = "heap w"
  let ?r = "length (str_lists ?h)"
  from idx obtain a where a: "subscript (read_nested_refs ?h phases) i = Some a"
    and agents: "agents = read_list ?h a"
    by (auto simp add: read_nested_def subscript_map)
  let ?h2 = "?h\<lparr>str_lists := str_lists ?h @ [agents]\<rparr>"
  let ?w2 = "w\<lparr>memory := (memory w)
                 \<lparr>cls_agent_phase_assignments :=
                    (cls_agent_phase_assignments (memory w))(chat \<mapsto> phases),
                  cls_current_phase := (cls_current_phase (memory w))(chat \<mapsto> i),
                  cls_required_agents_for_current_phase :=
                    (cls_required_agents_for_current_phase (memory w))(chat \<mapsto> ?r)\<rparr>,
               heap := ?h2\<rparr>"
  have step2: "set_current_phase self chat i (set_agent_phase_assignments self chat phases w)
                 = (Inr (), ?w2)"
    using mem a agents
    by (simp add: set_current_phase_def set_agent_phase_assignments_def Let_def deepcopy_def
        new_list_def returns_def)
  have req2: "read_list ?h2 ?r = agents"
    by (simp add: read_list_def)
  have nested2: "read_nested ?h2 phases = read_nested ?h phases"
    using valid by (intro read_nested_preserved) (simp_all add: nth_append)
  let ?h3 = "?h2\<lparr>str_lists := (str_lists ?h2)[?r := remove1 agent agents]\<rparr>"
  have nested3: "read_nested ?h3 phases = read_nested ?h phases"
    using valid by (intro read_nested_preserved) (simp_all add: nth_append)
  have req3: "read_list ?h3 ?r = remove1 agent agents"
    by (simp add: read_list_def)
  show ?thesis
  proof (cases "agent \<in> set agents")
    case True
    have step3: "remove_required_agent_for_current_phase self chat agent ?w2
                   = (Inr (), ?w2\<lparr>heap := ?h3\<rparr>)"
      using mem True req2
      by (simp add: remove_required_agent_for_current_phase_def returns_def)
    show ?thesis
      using mem True req2 req3 nested2 nested3
      by (simp add: step2 step3 Let_def get_required_agents_for_current_phase_def
          get_agent_phase_assignments_def)
  next
    case False
    have step3: "remove_required_agent_for_current_phase self chat agent ?w2
                   = (Inl ValueError, ?w2)"
      using mem False req2
      by (simp add: remove_required_agent_for_current_phase_def raises_def)
    show ?thesis
      using mem False req2 nested2
      by (simp add: step2 step3 Let_def get_required_agents_for_current_phase_def
          get_agent_phase_assignments_def)
  qed
qed

lemma snapshot_redis:
  assumes red: "ctx_use_redis self"
      and idx: "subscript (read_nested (heap w) phases) i = Some agents"
  shows "let w1 = set_agent_phase_assignments self chat phases w;
             (r2, w2) = set_current_phase self chat i w1;
             (r3, w3) = remove_required_agent_for_current_phase self chat agent w2
         in r2 = Inr ()
            \<and> get_required_agents_for_current_phase self w2 chat = agents
            \<and> get_agent_phase_assignments self w2 chat = read_nested (heap w) phases
            \<and> r3 = (if agent \<in> set agents then Inr () else Inl ValueError)
            \<and> get_required_agents_for_current_phase self w3 chat
                = (if agent \<in> set agents then remove1 agent agents else agents)
            \<and> get_agent_phase_assignments self w3 chat = read_nested (heap w) phases
            \<and> read_nested (heap w3) phases = read_nested (heap w) phases"
  using red idx
  by (simp add: set_current_phase_def set_agent_phase_assignments_def Let_def returns_def
      raises_def remove_required_agent_for_current_phase_def
      get_required_agents_for_current_phase_def get_agent_phase_assignments_def)

text \<open>
  Claim C7. Let \<open>phases\<close> be a list of lists on the heap and \<open>i\<close> an index into it
  (counted from the end when negative) with \<open>phases[i] = agents\<close>. After
  \<open>set_agent_phase_assignments(chat, phases)\<close> and \<open>set_current_phase(chat, i)\<close> the
  required agents of the chat are \<open>agents\<close>. A following
  \<open>remove_required_agent_for_current_phase(chat, agent)\<close> changes the required agents only
  (it removes the first occurrence of the agent, or raises \<open>ValueError\<close> when there is
  none): the phase assignments of the chat and the caller's list object read as before, in
  every phase. This holds on both backends.
\<close>

theorem snapshot_independence:
  assumes "valid_nested (heap w) phases"
      and "subscript (read_nested (heap w) phases) i = Some agents"
  shows "let w1 = set_agent_phase_assignments self chat phases w;
             (r2, w2) = set_current_phase self chat i w1;
             (r3, w3) = remove_required_agent_for_current_phase self chat agent w2
         in r2 = Inr ()
            \<and> get_required_agents_for_current_phase self w2 chat = agents
            \<and> get_agent_phase_assignments self w2 chat = read_nested (heap w) phases
            \<and> r3 = (if agent \<in> set agents then Inr () else Inl ValueError)
            \<and> get_required_agents_for_current_phase self w3 chat
                = (if agent \<in> set agents then remove1 agent agents else agents)
            \<and> get_agent_phase_assignments self w3 chat = read_nested (heap w) phases
            \<and> read_nested (heap w3) phases = read_nested (heap w) phases"
  using assms snapshot_memory [of self w phases i agents chat agent]
    snapshot_redis [of self w phases i agents chat agent]
  by (cases "ctx_use_redis self") blast+

theorem snapshot_independence_witness:
  "(let self = \<lparr>ctx_name = ''ctx'', ctx_use_redis = False\<rparr>;
        w = (initial_world False)
              \<lparr>heap := \<lparr>str_lists = [[''A'', ''B''], [''C'']], nested_lists = [[0, 1]]\<rparr>\<rparr>;
        w1 = set_agent_phase_assignments self ''chat'' 0 w;
        (r2, w2) = set_current_phase self ''chat'' 0 w1;
        (r3, w3) = remove_required_agent_for_current_phase self ''chat'' ''A'' w2
    in (valid_nested (heap w) 0,
        subscript (read_nested (heap w) 0) 0,
        r2, get_required_agents_for_current_phase self w2 ''chat'',
        r3, get_required_agents_for_current_phase self w3 ''chat'',
        get_agent_phase_assignments self w3 ''chat'',
        read_nested (heap w3) 0))
   = (True, Some [''A'', ''B''], Inr (), [''A'', ''B''], Inr (), [''B''],
      [[''A'', ''B''], [''C'']], [[''A'', ''B''], [''C'']])"
  using snapshot_independence
    [of "(initial_world False)
           \<lparr>heap := \<lparr>str_lists = [[''A'', ''B''], [''C'']], nested_lists = [[0, 1]]\<rparr>\<rparr>"
        0 0 "[''A'', ''B'']" "\<lparr>ctx_name = ''ctx'', ctx_use_redis = False\<rparr>" "''chat''" "''A''"]
  by (simp add: world_defs heap_defs phase_defs Let_def)


subsection \<open>What a send hands to the transport\<close>

lemma transport_trace: "transport (trace c m w) = transport w"
  by (simp add: trace_def)

lemma transport_add_participant: "transport (add_participant c a w) = transport w"
  by (simp add: add_participant_def)

lemma transport_get_or_create_context:
  "transport (snd (get_or_create_context n w)) = transport w"
  by (simp add: get_or_create_context_def new_WiseAgentContext_def register_context_def Let_def
      split: option.split)

lemma message_objects_add_participant:
  "message_objects (add_participant c a w) = message_objects w"
  by (simp add: add_participant_def)

lemma message_objects_get_or_create_context:
  "message_objects (snd (get_or_create_context n w)) = message_objects w"
  by (simp add: get_or_create_context_def new_WiseAgentContext_def register_context_def Let_def
      split: option.split)

text \<open>
  Sending a message that has just been made: the transport gets its contents, with the
  agent stamped as sender.
\<close>

lemma stamped_new_message:
  assumes "new_message m w = (a, w1)"
  shows "transport (set_sender a name w1) = transport w"
    and "message_objects (set_sender a name w1) = message_objects w @ [m\<lparr>sender := name\<rparr>]"
    and "read_message (set_sender a name w1) a = m\<lparr>sender := name\<rparr>"
proof -
  from assms have a: "a = length (message_objects w)"
    and w1: "w1 = w\<lparr>message_objects := message_objects w @ [m]\<rparr>"
    by (auto simp add: new_message_def)
  show "transport (set_sender a name w1) = transport w"
    by (simp add: set_sender_def w1)
  show objs: "message_objects (set_sender a name w1) = message_objects w @ [m\<lparr>sender := name\<rparr>]"
    by (simp add: set_sender_def read_message_def a w1)
  show "read_message (set_sender a name w1) a = m\<lparr>sender := name\<rparr>"
    unfolding read_message_def objs by (simp add: a)
qed

lemma transport_send_request:
  "transport (send_request self (fst (new_message m w)) dest (snd (new_message m w)))
     = transport w @ [Request (m\<lparr>sender := wa_name self\<rparr>) dest]"
proof -
  obtain a w1 where new: "new_message m w = (a, w1)"
    by (cases "new_message m w")
  let ?w0 = "set_sender a (wa_name self) w1"
  note stamped = stamped_new_message [OF new, of "wa_name self"]
  obtain c w2 where eq: "get_or_create_context (context_name (read_message ?w0 a)) ?w0 = (c, w2)"
    by (cases "get_or_create_context (context_name (read_message ?w0 a)) ?w0")
  have tr2: "transport w2 = transport w"
    using transport_get_or_create_context [of "context_name (read_message ?w0 a)" ?w0] eq
      stamped(1) by simp
  have objs2: "message_objects w2 = message_objects ?w0"
    using message_objects_get_or_create_context [of "context_name (read_message ?w0 a)" ?w0] eq
    by simp
  have "read_message (add_participant c (wa_name self) w2) a = read_message ?w0 a"
    by (simp add: read_message_def message_objects_add_participant objs2)
  then have rd2: "read_message (add_participant c (wa_name self) w2) a = m\<lparr>sender := wa_name self\<rparr>"
    using stamped(3) by simp
  show ?thesis
    by (simp add: new send_request_def Let_def eq tr2 rd2 transport_trace
        transport_add_participant)
qed

lemma transport_send_response:
  "transport (send_response self (fst (new_message m w)) dest (snd (new_message m w)))
     = transport w @ [Response (m\<lparr>sender := wa_name self\<rparr>) dest]"
proof -
  obtain a w1 where new: "new_message m w = (a, w1)"
    by (cases "new_message m w")
  let ?w0 = "set_sender a (wa_name self) w1"
  note stamped = stamped_new_message [OF new, of "wa_name self"]
  obtain c w2 where eq: "get_or_create_context (context_name (read_message ?w0 a)) ?w0 = (c, w2)"
    by (cases "get_or_create_context (context_name (read_message ?w0 a)) ?w0")
  have tr2: "transport w2 = transport w"
    using transport_get_or_create_context [of "context_name (read_message ?w0 a)" ?w0] eq
      stamped(1) by simp
  have objs2: "message_objects w2 = message_objects ?w0"
    using message_objects_get_or_create_context [of "context_name (read_message ?w0 a)" ?w0] eq
    by simp
  have "read_message (add_participant c (wa_name self) w2) a = read_message ?w0 a"
    by (simp add: read_message_def message_objects_add_participant objs2)
  then have rd2: "read_message (add_participant c (wa_name self) w2) a = m\<lparr>sender := wa_name self\<rparr>"
    using stamped(3) by simp
  show ?thesis
    by (simp add: new send_response_def Let_def eq tr2 rd2 transport_trace
        transport_add_participant)
qed

text \<open>
  The trace in memory holds the object: a message that is sent a second time, by another
  agent, is stamped again, and the entry of the first send reads as the second.
\<close>

lemma resent_message_rewrites_trace:
  "(let c = \<lparr>ctx_name = ''ctx'', ctx_use_redis = False\<rparr>;
        (m, w0) = new_message \<lparr>message = ''hello'', message_type = None, sender = '''',
                               context_name = ''ctx'', chat_id = None\<rparr> (initial_world False);
        w1 = send_request \<lparr>wa_name = ''A'', wa_description = ''''\<rparr> m ''C'' w0;
        w2 = send_request \<lparr>wa_name = ''B'', wa_description = ''''\<rparr> m ''C'' w1
    in (map sender (message_trace c w1), map sender (message_trace c w2)))
   = ([''A''], [''B'', ''B''])"
  by (simp add: world_defs new_message_def send_request_def set_sender_def read_message_def
      get_or_create_context_def new_WiseAgentContext_def register_context_def
      add_participant_def participants_def trace_def message_trace_def Let_def)

subsection \<open>Sequential routing\<close>

text \<open>
  The next agent in a sequence without repetitions is the element after the agent, if there
  is one; an agent outside the sequence has no next agent.
\<close>

lemma index_nth_distinct: "distinct xs \<Longrightarrow> i < length xs \<Longrightarrow> index xs (xs ! i) = i"
proof (induction xs arbitrary: i)
  case Nil
  then show ?case by simp
next
  case (Cons y ys)
  then show ?case by (cases i) auto
qed

lemma next_agent_in_distinct_sequence:
  assumes "get_agents_sequence context w chat = agents" and "distinct agents"
      and "i < length agents"
  shows "get_next_agent_in_sequence context w chat (agents ! i)
           = (if Suc i < length agents then Some (agents ! Suc i) else None)"
  using assms by (simp add: get_next_agent_in_sequence_def Let_def index_nth_distinct)

lemma next_agent_outside_sequence:
  assumes "current_agent \<notin> set (get_agents_sequence context w chat)"
  shows "get_next_agent_in_sequence context w chat current_agent = None"
  using assms by (simp add: get_next_agent_in_sequence_def Let_def)

lemma next_agent_of_three:
  assumes "get_agents_sequence context w chat = [A, B, C]" and "distinct [A, B, C]"
  shows "get_next_agent_in_sequence context w chat A = Some B"
    and "get_next_agent_in_sequence context w chat B = Some C"
    and "get_next_agent_in_sequence context w chat C = None"
    and "x \<notin> {A, B, C} \<Longrightarrow> get_next_agent_in_sequence context w chat x = None"
  using assms by (auto simp add: get_next_agent_in_sequence_def Let_def)

text \<open>
  Claim C1. Take a chat whose collaboration type is SEQUENTIAL, with agent sequence
  \<open>[A, B, C]\<close> of three different agents and \<open>route_response_to = R\<close>, and a request
  of that chat. \<open>handle_response\<close> with a non-empty response string returns \<open>True\<close> and
  hands exactly one message to the transport, which carries the response text, the agent
  as sender, the context's name and the chat id: for agent \<open>A\<close> a request to \<open>B\<close>, for
  \<open>B\<close> a request to \<open>C\<close>, for \<open>C\<close> a response to \<open>R\<close>, and for an agent that is
  not in the sequence a response to \<open>R\<close> as well.
\<close>

theorem sequential_routing:
  assumes "get_collaboration_type context w (chat_id request) = Some SEQUENTIAL"
      and "chat_id request = Some chat"
      and "get_agents_sequence context w chat = [A, B, C]"
      and "distinct [A, B, C]"
      and "get_route_response_to context w chat = Some R"
      and "response \<noteq> []"
  shows "let out = handle_response self (Some response) request context
                     (get_collaboration_type context w (chat_id request)) w;
             msg = \<lparr>message = response, message_type = None, sender = wa_name self,
                    context_name = ctx_name context, chat_id = Some chat\<rparr>
         in fst out = Inr True
            \<and> (wa_name self = A \<longrightarrow> transport (snd out) = transport w @ [Request msg B])
            \<and> (wa_name self = B \<longrightarrow> transport (snd out) = transport w @ [Request msg C])
            \<and> (wa_name self = C \<longrightarrow> transport (snd out) = transport w @ [Response msg R])
            \<and> (wa_name self \<notin> {A, B, C}
                 \<longrightarrow> transport (snd out) = transport w @ [Response msg R])"
proof -
  note next_agent = next_agent_of_three [OF assms(3) assms(4)]
  consider "wa_name self = A" | "wa_name self = B" | "wa_name self = C"
    | "wa_name self \<notin> {A, B, C}"
    by blast
  then show ?thesis
  proof cases
    case 1
    with assms(1,2,4,6) next_agent(1) show ?thesis
      by (auto simp add: handle_response_def returns_def Let_def case_prod_beta
          transport_send_request)
  next
    case 2
    with assms(1,2,4,6) next_agent(2) show ?thesis
      by (auto simp add: handle_response_def returns_def Let_def case_prod_beta
          transport_send_request)
  next
    case 3
    with assms(1,2,4,5,6) next_agent(3) show ?thesis
      by (auto simp add: handle_response_def returns_def Let_def case_prod_beta
          transport_send_response)
  next
    case 4
    with assms(1,2,5,6) next_agent(4) [of "wa_name self"] show ?thesis
      by (auto simp add: handle_response_def returns_def Let_def case_prod_beta
          transport_send_response)
  qed
qed

theorem sequential_routing_witness:
  "(let c = \<lparr>ctx_name = ''ctx'', ctx_use_redis = False\<rparr>;
        w = set_route_response_to c ''chat'' ''R''
              (set_agents_sequence c ''chat'' [''A'', ''B'', ''C'']
                 (set_collaboration_type c ''chat'' SEQUENTIAL (initial_world False)));
        request = \<lparr>message = ''question'', message_type = None, sender = ''coordinator'',
                    context_name = ''ctx'', chat_id = Some ''chat''\<rparr>;
        out = handle_response \<lparr>wa_name = ''A'', wa_description = ''first''\<rparr> (Some ''answer'')
                request c (get_collaboration_type c w (chat_id request)) w
    in (get_collaboration_type c w (chat_id request), get_agents_sequence c w ''chat'',
        distinct [''A'', ''B'', ''C''], get_route_response_to c w ''chat'',
        fst out, transport (snd out)))
   = (Some SEQUENTIAL, [''A'', ''B'', ''C''], True, Some ''R'', Inr True,
      [Request \<lparr>message = ''answer'', message_type = None, sender = ''A'',
                context_name = ''ctx'', chat_id = Some ''chat''\<rparr> ''B''])"
  using sequential_routing
    [of "\<lparr>ctx_name = ''ctx'', ctx_use_redis = False\<rparr>"
        "set_route_response_to \<lparr>ctx_name = ''ctx'', ctx_use_redis = False\<rparr> ''chat'' ''R''
           (set_agents_sequence \<lparr>ctx_name = ''ctx'', ctx_use_redis = False\<rparr> ''chat''
              [''A'', ''B'', ''C'']
              (set_collaboration_type \<lparr>ctx_name = ''ctx'', ctx_use_redis = False\<rparr> ''chat''
                 SEQUENTIAL (initial_world False)))"
        "\<lparr>message = ''question'', message_type = None, sender = ''coordinator'',
          context_name = ''ctx'', chat_id = Some ''chat''\<rparr>"
        "''chat''" "''A''" "''B''" "''C''" "''R''" "''answer''"
        "\<lparr>wa_name = ''A'', wa_description = ''first''\<rparr>"]
  by (simp add: Let_def world_defs get_collaboration_type_def set_collaboration_type_def
      get_agents_sequence_def set_agents_sequence_def get_route_response_to_def
      set_route_response_to_def)

subsection \<open>One store for all contexts of a process\<close>

text \<open>
  Claim C3. Two contexts that keep their state in memory share it, whatever their names:
  a chat completion appended through one is read back through the other, at the end of
  what the other saw before; a participant added through one is a participant of the
  other; a collaboration type set through one is what the other answers.
\<close>

theorem class_level_state_shared:
  assumes "\<not> ctx_use_redis c1" and "\<not> ctx_use_redis c2"
  shows "llm_chat_completion c2 (snd (append_chat_completion c1 (Some chat) m w)) (Some chat)
           = Some ((case llm_chat_completion c2 w (Some chat) of None \<Rightarrow> [] | Some h \<Rightarrow> h) @ [m])
         \<and> Str a \<in> set (participants c2 (add_participant c1 a w))
         \<and> get_collaboration_type c2 (set_collaboration_type c1 chat t w) (Some chat) = Some t"
  using assms
  by (auto simp add: llm_chat_completion_def append_chat_completion_def returns_def Let_def
      participants_def add_participant_def get_collaboration_type_def set_collaboration_type_def
      dom_def split: option.splits)

theorem class_level_state_shared_witness:
  "(let c1 = \<lparr>ctx_name = ''first'', ctx_use_redis = False\<rparr>;
        c2 = \<lparr>ctx_name = ''second'', ctx_use_redis = False\<rparr>;
        m = \<lparr>role = ''user'', content = ''hello''\<rparr>;
        w = initial_world False
    in (ctx_use_redis c1, ctx_use_redis c2, ctx_name c1 = ctx_name c2,
        llm_chat_completion c2 w (Some ''chat''),
        llm_chat_completion c2 (snd (append_chat_completion c1 (Some ''chat'') m w)) (Some ''chat''),
        participants c2 w,
        participants c2 (add_participant c1 ''agent1'' w),
        get_collaboration_type c2 w (Some ''chat''),
        get_collaboration_type c2 (set_collaboration_type c1 ''chat'' PHASED w) (Some ''chat'')))
   = (False, False, False,
      None, Some [\<lparr>role = ''user'', content = ''hello''\<rparr>],
      [], [Str ''agent1''],
      Some INDEPENDENT, Some PHASED)"
  using class_level_state_shared
    [of "\<lparr>ctx_name = ''first'', ctx_use_redis = False\<rparr>"
        "\<lparr>ctx_name = ''second'', ctx_use_redis = False\<rparr>"
        "''chat''" "\<lparr>role = ''user'', content = ''hello''\<rparr>" "initial_world False"
        "''agent1''" PHASED]
  by (simp add: Let_def world_defs llm_chat_completion_def append_chat_completion_def
      returns_def participants_def add_participant_def get_collaboration_type_def
      set_collaboration_type_def dom_def)

subsection \<open>Queries\<close>

text \<open>
  The first query of a chat on Redis is read back twice; in memory once.
\<close>

lemma add_query_first_query:
  "get_queries \<lparr>ctx_name = ''ctx'', ctx_use_redis = True\<rparr>
     (add_query \<lparr>ctx_name = ''ctx'', ctx_use_redis = True\<rparr> ''chat'' ''q'' (initial_world True))
     ''chat'' = [''q'', ''q'']"
  and "get_queries \<lparr>ctx_name = ''ctx'', ctx_use_redis = False\<rparr>
     (add_query \<lparr>ctx_name = ''ctx'', ctx_use_redis = False\<rparr> ''chat'' ''q'' (initial_world False))
     ''chat'' = [''q'']"
  by (simp_all add: get_queries_def add_query_def world_defs Let_def dom_def)

subsection \<open>The history a request is processed with\<close>

text \<open>
  What \<open>handle_request\<close> does, in one equation: it calls the processing callback with
  the request and with what \<open>dict.get\<close> finds in the context's chat history for the
  request's chat id, if the chat's collaboration type is PHASED or CHAT and the chat id is
  a non-empty string, and with the empty list in every other case. What the callback
  answers goes to \<open>handle_response\<close> with the same context and collaboration type.
\<close>

lemma handle_request_history:
  "handle_request self process_request request w =
     (let (context, w1) = get_or_create_context (context_name request) w;
          mode = get_collaboration_type context w1 (chat_id request);
          history = (if (mode = Some PHASED \<or> mode = Some CHAT) \<and> chat_id request \<noteq> None
                        \<and> chat_id request \<noteq> Some []
                     then llm_chat_completion context w1 (chat_id request)
                     else Some [])
      in and_then (process_request request history w1)
           (\<lambda>response_str w2. handle_response self response_str request context mode w2))"
  by (auto simp add: handle_request_def get_conversation_history_if_needed_def truthy_def Let_def
      split: prod.splits option.splits)

text \<open>
  Claim C6. For a request of a PHASED chat that no chat completion has been appended for,
  the processing callback is not called with the chat's history, the empty list, but with
  \<open>None\<close>. The first component is the collaboration type of the chat, the second what
  the spec's selection gives, the third what \<open>get_conversation_history_if_needed\<close>
  answers. The fourth is what the transport gets from \<open>handle_request\<close> when the
  callback answers with \<open>not a list\<close> for \<open>None\<close> and with \<open>a list\<close> for a list:
  the acknowledgement carries \<open>not a list\<close>.
\<close>

theorem history_of_phased_chat_without_history:
  "(let c = \<lparr>ctx_name = ''ctx'', ctx_use_redis = False\<rparr>;
        self = \<lparr>wa_name = ''agent1'', wa_description = ''''\<rparr>;
        w = set_collaboration_type c ''chat'' PHASED
              (snd (get_or_create_context ''ctx'' (initial_world False)));
        mode = get_collaboration_type c w (Some ''chat'');
        request = \<lparr>message = ''question'', message_type = None, sender = ''coordinator'',
                    context_name = ''ctx'', chat_id = Some ''chat''\<rparr>;
        process_request = (\<lambda>req history. returns
                             (case history of None \<Rightarrow> Some ''not a list''
                                            | Some h \<Rightarrow> Some ''a list''))
    in (mode,
        history_by_spec c w (Some ''chat'') mode,
        get_conversation_history_if_needed self c w (Some ''chat'') mode,
        transport (snd (handle_request self process_request request w))))
   = (Some PHASED, Some [], None,
      [Response \<lparr>message = ''not a list'', message_type = Some ACK, sender = ''agent1'',
                 context_name = ''ctx'', chat_id = Some ''chat''\<rparr> ''coordinator''])"
  by (simp add: world_defs get_collaboration_type_def set_collaboration_type_def
      llm_chat_completion_def append_chat_completion_def returns_def and_then_def Let_def
      get_conversation_history_if_needed_def history_by_spec_def truthy_def dom_def
      handle_request_def handle_response_def send_response_def new_message_def set_sender_def
      read_message_def get_or_create_context_def new_WiseAgentContext_def register_context_def
      add_participant_def participants_def trace_def)

text \<open>
  The same function on a second input, the chat id \<open>""\<close>: the chat is PHASED and the
  context holds a history for it, which is what the spec's selection gives, and the history
  handed on by the code is the empty list.
\<close>

lemma history_for_empty_chat_id:
  "(let c = \<lparr>ctx_name = ''ctx'', ctx_use_redis = False\<rparr>;
        w = snd (append_chat_completion c (Some '''') \<lparr>role = ''user'', content = ''hello''\<rparr>
                   (set_collaboration_type c '''' PHASED (initial_world False)));
        mode = get_collaboration_type c w (Some '''')
    in (mode,
        history_by_spec c w (Some '''') mode,
        get_conversation_history_if_needed \<lparr>wa_name = ''agent1'', wa_description = ''''\<rparr>
          c w (Some '''') mode))
   = (Some PHASED, Some [\<lparr>role = ''user'', content = ''hello''\<rparr>], Some [])"
  by (simp add: world_defs get_collaboration_type_def set_collaboration_type_def
      llm_chat_completion_def append_chat_completion_def returns_def Let_def
      get_conversation_history_if_needed_def history_by_spec_def truthy_def dom_def)

text \<open>
  For a chat id that is a non-empty string and has a history in the context, the code and
  the spec's selection agree, whatever the collaboration type.
\<close>

lemma history_agrees_for_chat_with_history:
  assumes "c \<noteq> []" and "llm_chat_completion context w (Some c) = Some h"
  shows "get_conversation_history_if_needed self context w (Some c) mode
           = history_by_spec context w (Some c) mode"
  using assms
  by (simp add: get_conversation_history_if_needed_def history_by_spec_def truthy_def)

end
